theory Spec2Isabelle
  imports Main
begin

section \<open>The signaling relay (server, \<^verbatim>\<open>clients\<close> set and the websocket route)\<close>

text \<open>
  The server keeps one module-level \<^verbatim>\<open>Set<WebSocket>\<close>. A JavaScript \<^verbatim>\<open>Set\<close> iterates in
  insertion order and holds no duplicates, so it is a list without repetitions here.
  A socket is named by a number (object identity). Everything the server does to the outside
  is \<^verbatim>\<open>client.send(message.toString())\<close>; each such call is recorded in \<open>sent\<close> as the pair
  of the receiving socket and the text handed to it. The decoding of the received
  \<^verbatim>\<open>Buffer\<close> (\<^verbatim>\<open>toString\<close>) is a parameter.
\<close>

type_synonym socket = nat

record 'm relay =
  clients :: "socket list"
  sent :: "(socket \<times> 'm) list"

definition relay_init :: "'m relay" where
  "relay_init = \<lparr>clients = [], sent = []\<rparr>"

text \<open>\<^verbatim>\<open>clients.add(ctx.websocket)\<close>\<close>

definition set_add :: "socket \<Rightarrow> socket list \<Rightarrow> socket list" where
  "set_add c cs = (if c \<in> set cs then cs else cs @ [c])"

text \<open>\<^verbatim>\<open>clients.delete(ctx.websocket)\<close>\<close>

definition set_delete :: "socket \<Rightarrow> socket list \<Rightarrow> socket list" where
  "set_delete c cs = filter (\<lambda>x. x \<noteq> c) cs"

definition on_connection :: "socket \<Rightarrow> 'm relay \<Rightarrow> 'm relay" where
  "on_connection c r = r\<lparr>clients := set_add c (clients r)\<rparr>"

definition on_close :: "socket \<Rightarrow> 'm relay \<Rightarrow> 'm relay" where
  "on_close c r = r\<lparr>clients := set_delete c (clients r)\<rparr>"

text \<open>
  The body of the \<^verbatim>\<open>for (const client of clients)\<close> loop, as a recursion over the set's
  elements: every client other than the sending socket is sent the decoded message.
\<close>

fun fan_out :: "socket \<Rightarrow> 'm \<Rightarrow> socket list \<Rightarrow> (socket \<times> 'm) list" where
  "fan_out sender txt [] = []"
| "fan_out sender txt (client # rest) =
     (if client \<noteq> sender then (client, txt) # fan_out sender txt rest
      else fan_out sender txt rest)"

definition on_message :: "('b \<Rightarrow> 'm) \<Rightarrow> socket \<Rightarrow> 'b \<Rightarrow> 'm relay \<Rightarrow> 'm relay" where
  "on_message toString sender message r =
     r\<lparr>sent := sent r @ fan_out sender (toString message) (clients r)\<rparr>"

datatype 'b relay_event = Connection socket | Close socket | Message socket 'b

fun relay_step :: "('b \<Rightarrow> 'm) \<Rightarrow> 'm relay \<Rightarrow> 'b relay_event \<Rightarrow> 'm relay" where
  "relay_step toString r (Connection c) = on_connection c r"
| "relay_step toString r (Close c) = on_close c r"
| "relay_step toString r (Message c b) = on_message toString c b r"

definition relay_run :: "('b \<Rightarrow> 'm) \<Rightarrow> 'm relay \<Rightarrow> 'b relay_event list \<Rightarrow> 'm relay" where
  "relay_run toString r evs = foldl (relay_step toString) r evs"


text \<open>What the relay has sent between an earlier state and a later one.\<close>

definition delivered_since :: "'m relay \<Rightarrow> 'm relay \<Rightarrow> (socket \<times> 'm) list" where
  "delivered_since r r' = drop (length (sent r)) (sent r')"


section \<open>Participant ids and the politeness computation\<close>

type_synonym participant_id = string

text \<open>
  Modelled from the spec: \<^verbatim>\<open>String.prototype.localeCompare\<close>, which the JavaScript
  platform provides and this repository only calls. The spec has it as a ``deterministic
  total order over the two ParticipantIds (e.g., lexicographic compare)''; here it is the
  three-way lexicographic comparison of the two strings by character code, with the results
  \<open>-1\<close>, \<open>0\<close> and \<open>1\<close>. The receiver of the call is the first argument.
\<close>

fun localeCompare :: "string \<Rightarrow> string \<Rightarrow> int" where
  "localeCompare [] [] = 0"
| "localeCompare [] (y # ys) = - 1"
| "localeCompare (x # xs) [] = 1"
| "localeCompare (x # xs) (y # ys) =
     (if (of_char x :: nat) < of_char y then - 1
      else if (of_char y :: nat) < of_char x then 1
      else localeCompare xs ys)"

text \<open>\<^verbatim>\<open>const polite = data.id.localeCompare(id) === 1;\<close>\<close>

definition polite :: "participant_id \<Rightarrow> participant_id \<Rightarrow> bool" where
  "polite remoteId localId \<longleftrightarrow> localeCompare remoteId localId = 1"


section \<open>The client: what is exchanged and what is observed\<close>

text \<open>
  The parsed form of a relay message, \<^verbatim>\<open>{ id, description }\<close> or \<^verbatim>\<open>{ id, candidate }\<close>.
  A member that is missing or \<^verbatim>\<open>null\<close> is \<open>None\<close>; this is what the tests
  \<^verbatim>\<open>if (data.description)\<close> and \<^verbatim>\<open>if (data.candidate)\<close> look at.
\<close>

record session_description =
  sdp_type :: string
  sdp :: string

record ice_candidate_init =
  cand :: string
  sdpMid :: "string option"
  sdpMLineIndex :: "nat option"

record envelope =
  env_id :: participant_id
  description :: "session_description option"
  candidate :: "ice_candidate_init option"

text \<open>\<^verbatim>\<open>{ type: 'rollback' }\<close>\<close>

definition rollback :: session_description where
  "rollback = \<lparr>sdp_type = ''rollback'', sdp = []\<rparr>"

text \<open>
  \<^verbatim>\<open>new RTCIceCandidate(init)\<close> throws a \<^verbatim>\<open>TypeError\<close> when both \<^verbatim>\<open>sdpMid\<close> and
  \<^verbatim>\<open>sdpMLineIndex\<close> are null; \<open>None\<close> is the throw.
\<close>

definition new_RTCIceCandidate :: "ice_candidate_init \<Rightarrow> ice_candidate_init option" where
  "new_RTCIceCandidate c =
     (if sdpMid c = None \<and> sdpMLineIndex c = None then None else Some c)"

datatype signaling_state =
  Stable | HaveLocalOffer | HaveRemoteOffer | HaveLocalPranswer | HaveRemotePranswer | SignalingClosed

datatype ice_connection_state =
  New | Checking | Connected | Completed | Disconnected | Failed | Closed

datatype call_status = Idle | Calling | InProgress

text \<open>
  Every call the client makes on the socket, the peer connection, the media devices, the
  audio element and the console is appended to a log. The first argument of an action is the
  number of the call whose socket, peer connection or stream it is made on.
\<close>

datatype action =
    NewWebSocket nat
  | GetUserMedia nat
  | NewPeerConnection nat
  | CreateDataChannel nat
  | AddTrack nat nat
  | CreateOffer nat
  | CreateAnswer nat
  | SetLocalDescription nat session_description
  | SetRemoteDescription nat session_description
  | AddIceCandidate nat ice_candidate_init
  | RestartIce nat
  | SocketSend nat envelope
  | DataChannelSend nat string
  | SocketClose nat
  | PeerConnectionClose nat
  | TrackStop nat nat
  | PlayAudio string
  | ConsoleError

text \<open>
  The variables \<^verbatim>\<open>makingOffer\<close> and \<^verbatim>\<open>ignoreOffer\<close> are local to one run of
  \<^verbatim>\<open>onStartCall\<close> and shared by the handlers that run creates. \<open>installed\<close> says that the
  run reached its end, so that the handlers are set on the peer connection and the socket.
\<close>

record call =
  makingOffer :: bool
  ignoreOffer :: bool
  installed :: bool

text \<open>
  An \<^verbatim>\<open>async\<close> function runs until its next \<^verbatim>\<open>await\<close> and is resumed when the awaited
  promise settles. A suspended run is the point at which it waits, with the call it belongs
  to and, in the message handler, the message \<^verbatim>\<open>data\<close>.
\<close>

datatype cont =
    AwaitSocketOpen nat
  | AwaitUserMedia nat
  | AwaitCreateOffer nat
  | AwaitSetLocalOffer nat
  | AwaitSetRemote nat envelope
  | AwaitCreateAnswer nat envelope
  | AwaitSetLocalAnswer nat envelope
  | AwaitAddIceCandidate nat
  | Finished

text \<open>
  How a promise settles is decided outside the client. A fulfilled promise brings what the
  code reads next: the description made by \<^verbatim>\<open>createOffer\<close> or \<^verbatim>\<open>createAnswer\<close>; after
  \<^verbatim>\<open>setLocalDescription\<close>, the value of \<^verbatim>\<open>peerConnection.localDescription\<close>; after
  \<^verbatim>\<open>getUserMedia\<close>, the tracks of the stream, together with the statement, if any, of the
  synchronous set-up after it that throws.
\<close>

datatype setup_fault = NoFault | PeerConnectionThrows | DataChannelThrows | AddTrackThrows

datatype payload =
    NoValue
  | Description session_description
  | MediaStream "nat list" setup_fault

datatype outcome = Fulfilled payload | Rejected

fun the_description :: "payload \<Rightarrow> session_description option" where
  "the_description (Description d) = Some d"
| "the_description _ = None"

text \<open>
  The component's state: the two pieces of React state, the two refs that hold closures
  (\<^verbatim>\<open>sendReactionRef\<close> holds a closure over the data channel of a call, \<^verbatim>\<open>disposeRef\<close> one
  over the socket, the peer connection and the stream's tracks of a call), the calls started
  so far, the suspended runs, and the log.
\<close>

record app =
  status :: call_status
  reactions :: "string list"
  sendReactionRef :: "nat option"
  disposeRef :: "(nat \<times> nat list) option"
  calls :: "call list"
  tasks :: "cont list"
  log :: "action list"

definition app_init :: app where
  "app_init = \<lparr>status = Idle, reactions = [], sendReactionRef = None, disposeRef = None,
                calls = [], tasks = [], log = []\<rparr>"

definition emit :: "action list \<Rightarrow> app \<Rightarrow> app" where
  "emit as s = s\<lparr>log := log s @ as\<rparr>"

definition goto :: "nat \<Rightarrow> cont \<Rightarrow> app \<Rightarrow> app" where
  "goto t c s = s\<lparr>tasks := (tasks s)[t := c]\<rparr>"

definition set_makingOffer :: "nat \<Rightarrow> bool \<Rightarrow> app \<Rightarrow> app" where
  "set_makingOffer k b s = s\<lparr>calls := (calls s)[k := (calls s ! k)\<lparr>makingOffer := b\<rparr>]\<rparr>"

definition set_ignoreOffer :: "nat \<Rightarrow> bool \<Rightarrow> app \<Rightarrow> app" where
  "set_ignoreOffer k b s = s\<lparr>calls := (calls s)[k := (calls s ! k)\<lparr>ignoreOffer := b\<rparr>]\<rparr>"


section \<open>The session controller: teardown and reactions\<close>

text \<open>
  The closure stored in \<^verbatim>\<open>disposeRef.current\<close>: close the socket and the peer connection,
  stop every track, clear both refs.
\<close>

definition dispose :: "nat \<Rightarrow> nat list \<Rightarrow> app \<Rightarrow> app" where
  "dispose k ts s =
     (emit ([SocketClose k, PeerConnectionClose k] @ map (TrackStop k) ts) s)
       \<lparr>sendReactionRef := None, disposeRef := None\<rparr>"

text \<open>
  \<^verbatim>\<open>onDisconnect\<close>. None of the calls in its \<^verbatim>\<open>try\<close> block throws (\<^verbatim>\<open>close()\<close> without
  arguments and \<^verbatim>\<open>stop()\<close> do not), so its \<^verbatim>\<open>catch\<close> is never entered.
\<close>

definition onDisconnect :: "app \<Rightarrow> app" where
  "onDisconnect s =
     (let s1 = (emit [PlayAudio ''/alert-stop.mp3''] s)\<lparr>status := Idle, reactions := []\<rparr>
      in case disposeRef s1 of
           None \<Rightarrow> s1
         | Some (k, ts) \<Rightarrow> dispose k ts s1)"

text \<open>
  \<^verbatim>\<open>onReaction\<close>: \<^verbatim>\<open>sendReactionRef.current?.(reaction)\<close>. The closure calls
  \<^verbatim>\<open>dataChannel.send\<close>, which throws \<^verbatim>\<open>InvalidStateError\<close> unless the channel is open;
  whether it is open is an input.
\<close>

datatype error = InvalidStateError

definition onReaction :: "string \<Rightarrow> bool \<Rightarrow> app \<Rightarrow> error + app" where
  "onReaction reaction channelOpen s =
     (case sendReactionRef s of
        None \<Rightarrow> Inr s
      | Some k \<Rightarrow>
          if channelOpen then Inr (emit [DataChannelSend k reaction] s)
          else Inl InvalidStateError)"


section \<open>The negotiation engine\<close>

text \<open>
  \<^verbatim>\<open>makeOffer\<close> up to its first \<^verbatim>\<open>await\<close>: set \<^verbatim>\<open>makingOffer\<close>, call \<^verbatim>\<open>createOffer\<close>.
  The run is a new task.
\<close>

definition makeOffer :: "nat \<Rightarrow> app \<Rightarrow> app" where
  "makeOffer k s =
     (let s1 = emit [CreateOffer k] (set_makingOffer k True s)
      in s1\<lparr>tasks := tasks s1 @ [AwaitCreateOffer k]\<rparr>)"

text \<open>The \<^verbatim>\<open>catch\<close> and \<^verbatim>\<open>finally\<close> blocks of \<^verbatim>\<open>makeOffer\<close>, entered when an await rejects.\<close>

definition makeOffer_catch :: "nat \<Rightarrow> nat \<Rightarrow> app \<Rightarrow> app" where
  "makeOffer_catch k t s = goto t Finished (set_makingOffer k False (emit [ConsoleError] s))"

text \<open>
  \<^verbatim>\<open>createOffer\<close> has settled. It fulfils with a description; a fulfilment without one
  is not a settlement of this promise and changes nothing.
\<close>

definition makeOffer_created :: "nat \<Rightarrow> nat \<Rightarrow> outcome \<Rightarrow> app \<Rightarrow> app" where
  "makeOffer_created k t out s =
     (case out of
        Rejected \<Rightarrow> makeOffer_catch k t s
      | Fulfilled v \<Rightarrow>
          (case the_description v of
             None \<Rightarrow> s
           | Some offer \<Rightarrow> goto t (AwaitSetLocalOffer k) (emit [SetLocalDescription k offer] s)))"

text \<open>
  \<^verbatim>\<open>setLocalDescription(offer)\<close> has settled: send \<^verbatim>\<open>{ id, description:
  peerConnection.localDescription }\<close>, then the \<^verbatim>\<open>finally\<close> block.
\<close>

definition makeOffer_applied :: "participant_id \<Rightarrow> nat \<Rightarrow> nat \<Rightarrow> outcome \<Rightarrow> app \<Rightarrow> app" where
  "makeOffer_applied localId k t out s =
     (case out of
        Rejected \<Rightarrow> makeOffer_catch k t s
      | Fulfilled v \<Rightarrow>
          goto t Finished
            (set_makingOffer k False
              (emit [SocketSend k \<lparr>env_id = localId, description = the_description v,
                                   candidate = None\<rparr>] s)))"

text \<open>\<^verbatim>\<open>peerConnection.onnegotiationneeded\<close>\<close>

definition onnegotiationneeded :: "nat \<Rightarrow> app \<Rightarrow> app" where
  "onnegotiationneeded k s = makeOffer k s"

text \<open>\<^verbatim>\<open>peerConnection.onicecandidate\<close>\<close>

definition onicecandidate :: "participant_id \<Rightarrow> nat \<Rightarrow> ice_candidate_init option \<Rightarrow> app \<Rightarrow> app" where
  "onicecandidate localId k c s =
     (case c of
        None \<Rightarrow> s
      | Some ic \<Rightarrow>
          emit [SocketSend k \<lparr>env_id = localId, description = None, candidate = Some ic\<rparr>] s)"

text \<open>
  \<^verbatim>\<open>peerConnection.oniceconnectionstatechange\<close>; the argument is the value of
  \<^verbatim>\<open>peerConnection.iceConnectionState\<close> that the handler reads.
\<close>

definition oniceconnectionstatechange :: "nat \<Rightarrow> ice_connection_state \<Rightarrow> app \<Rightarrow> app" where
  "oniceconnectionstatechange k st s =
     (let s1 = (if st = Failed then emit [RestartIce k] s else s)
      in if st = Disconnected then onDisconnect s1 else s1)"

text \<open>\<^verbatim>\<open>peerConnection.ontrack\<close> (the video elements are left out).\<close>

definition ontrack :: "nat \<Rightarrow> app \<Rightarrow> app" where
  "ontrack k s = emit [PlayAudio ''/alert-start.mp3''] (s\<lparr>status := InProgress\<rparr>)"

text \<open>\<^verbatim>\<open>peerConnection.ondatachannel\<close> with the \<^verbatim>\<open>onmessage\<close> it sets on the channel.\<close>

definition ondatachannel_message :: "string \<Rightarrow> string \<Rightarrow> app \<Rightarrow> app" where
  "ondatachannel_message label d s =
     (if label = ''reactions'' then s\<lparr>reactions := reactions s @ [d]\<rparr> else s)"

text \<open>
  The last part of the message handler (\<^verbatim>\<open>if (data.candidate)\<close>), run by task \<open>t\<close>. A throw
  of the constructor enters the \<^verbatim>\<open>catch\<close> at once.
\<close>

definition candidate_part :: "nat \<Rightarrow> nat \<Rightarrow> envelope \<Rightarrow> app \<Rightarrow> app" where
  "candidate_part k t data s =
     (case candidate data of
        None \<Rightarrow> goto t Finished s
      | Some c \<Rightarrow>
          (case new_RTCIceCandidate c of
             None \<Rightarrow>
               goto t Finished (if \<not> ignoreOffer (calls s ! k) then emit [ConsoleError] s else s)
           | Some ic \<Rightarrow>
               goto t (AwaitAddIceCandidate k) (emit [AddIceCandidate k ic] s)))"

text \<open>
  \<^verbatim>\<open>webSocket.onmessage\<close> up to its first \<^verbatim>\<open>await\<close>. \<open>data\<close> is the parsed message and
  \<open>sig\<close> the value of \<^verbatim>\<open>peerConnection.signalingState\<close> that the handler reads. The run is
  task \<open>length (tasks s)\<close>. A text that \<^verbatim>\<open>JSON.parse\<close> rejects makes the handler throw
  before it does anything, and is no event here.
\<close>

definition onmessage :: "participant_id \<Rightarrow> nat \<Rightarrow> envelope \<Rightarrow> signaling_state \<Rightarrow> app \<Rightarrow> app" where
  "onmessage localId k data sig s =
     (let t = length (tasks s);
          s0 = s\<lparr>tasks := tasks s @ [Finished]\<rparr>
      in case description data of
           None \<Rightarrow> candidate_part k t data s0
         | Some d \<Rightarrow>
             (let polite = polite (env_id data) localId;
                  offerCollision =
                    (sdp_type d = ''offer'' \<and> (makingOffer (calls s0 ! k) \<or> sig \<noteq> Stable));
                  s1 = set_ignoreOffer k (\<not> polite \<and> offerCollision) s0
              in if ignoreOffer (calls s1 ! k) then
                   (if \<not> makingOffer (calls s1 ! k) then makeOffer k s1 else s1)
                 else if offerCollision then
                   goto t (AwaitSetRemote k data)
                     (emit [SetLocalDescription k rollback, SetRemoteDescription k d] s1)
                 else
                   goto t (AwaitSetRemote k data) (emit [SetRemoteDescription k d] s1)))"

text \<open>
  The description or descriptions have settled (\<^verbatim>\<open>Promise.all\<close> rejects when either
  promise does). A rejection is not caught: the run of the handler ends there.
\<close>

definition onmessage_applied :: "nat \<Rightarrow> nat \<Rightarrow> envelope \<Rightarrow> outcome \<Rightarrow> app \<Rightarrow> app" where
  "onmessage_applied k t data out s =
     (case out of
        Rejected \<Rightarrow> goto t Finished s
      | Fulfilled v \<Rightarrow>
          (case description data of
             None \<Rightarrow> candidate_part k t data s
           | Some d \<Rightarrow>
               if sdp_type d = ''offer'' then
                 goto t (AwaitCreateAnswer k data) (emit [CreateAnswer k] s)
               else candidate_part k t data s))"

definition onmessage_answer_created :: "nat \<Rightarrow> nat \<Rightarrow> envelope \<Rightarrow> outcome \<Rightarrow> app \<Rightarrow> app" where
  "onmessage_answer_created k t data out s =
     (case out of
        Rejected \<Rightarrow> goto t Finished s
      | Fulfilled v \<Rightarrow>
          (case the_description v of
             None \<Rightarrow> s
           | Some answer \<Rightarrow>
               goto t (AwaitSetLocalAnswer k data) (emit [SetLocalDescription k answer] s)))"

definition onmessage_answer_applied ::
  "participant_id \<Rightarrow> nat \<Rightarrow> nat \<Rightarrow> envelope \<Rightarrow> outcome \<Rightarrow> app \<Rightarrow> app" where
  "onmessage_answer_applied localId k t data out s =
     (case out of
        Rejected \<Rightarrow> goto t Finished s
      | Fulfilled v \<Rightarrow>
          candidate_part k t data
            (emit [SocketSend k \<lparr>env_id = localId, description = the_description v,
                                 candidate = None\<rparr>] s))"

text \<open>\<^verbatim>\<open>addIceCandidate\<close> has settled; a rejection enters the \<^verbatim>\<open>catch\<close> around it.\<close>

definition onmessage_candidate_added :: "nat \<Rightarrow> nat \<Rightarrow> outcome \<Rightarrow> app \<Rightarrow> app" where
  "onmessage_candidate_added k t out s =
     (case out of
        Rejected \<Rightarrow>
          goto t Finished (if \<not> ignoreOffer (calls s ! k) then emit [ConsoleError] s else s)
      | Fulfilled v \<Rightarrow> goto t Finished s)"


section \<open>Starting a call\<close>

text \<open>The \<^verbatim>\<open>catch\<close> block of \<^verbatim>\<open>onStartCall\<close>.\<close>

definition onStartCall_catch :: "nat \<Rightarrow> app \<Rightarrow> app" where
  "onStartCall_catch t s = goto t Finished (onDisconnect (emit [ConsoleError] s))"

text \<open>
  \<^verbatim>\<open>onStartCall\<close> up to its first \<^verbatim>\<open>await\<close>, inside \<^verbatim>\<open>createSocket\<close>. The flag says
  whether \<^verbatim>\<open>new WebSocket(...)\<close> throws. The call gets the next free number.
\<close>

definition onStartCall :: "bool \<Rightarrow> app \<Rightarrow> app" where
  "onStartCall socketThrows s =
     (let k = length (calls s);
          t = length (tasks s);
          s1 = s\<lparr>status := Calling,
                 calls := calls s @ [\<lparr>makingOffer = False, ignoreOffer = False, installed = False\<rparr>],
                 tasks := tasks s @ [Finished]\<rparr>
      in if socketThrows then onStartCall_catch t s1
         else goto t (AwaitSocketOpen k) (emit [NewWebSocket k] s1))"

text \<open>
  The promise awaited in \<^verbatim>\<open>createSocket\<close> is resolved by \<^verbatim>\<open>socket.onopen\<close> and has no
  way to reject: a socket that fails to open leaves the run suspended.
\<close>

definition onStartCall_opened :: "nat \<Rightarrow> nat \<Rightarrow> outcome \<Rightarrow> app \<Rightarrow> app" where
  "onStartCall_opened k t out s =
     (case out of
        Rejected \<Rightarrow> s
      | Fulfilled v \<Rightarrow> goto t (AwaitUserMedia k) (emit [GetUserMedia k] s))"

text \<open>
  The synchronous rest of \<^verbatim>\<open>onStartCall\<close> once the stream is there: the peer connection,
  the data channel, the two refs, the tracks, the handlers. \<^verbatim>\<open>addTrack\<close> can only throw when
  there is a track, and is taken to throw at the first one. The handlers are installed when
  the run gets to its end; the one handler assigned before \<^verbatim>\<open>addTrack\<close>
  (\<^verbatim>\<open>ondatachannel\<close>) sits, after a throw, on a peer connection that the \<^verbatim>\<open>catch\<close> block
  closes at once.
\<close>

definition onStartCall_setup :: "nat \<Rightarrow> nat \<Rightarrow> nat list \<Rightarrow> setup_fault \<Rightarrow> app \<Rightarrow> app" where
  "onStartCall_setup k t ts fault s =
     (if fault = PeerConnectionThrows then onStartCall_catch t s
      else
        let s1 = emit [NewPeerConnection k] s
        in if fault = DataChannelThrows then onStartCall_catch t s1
           else
             let s2 = (emit [CreateDataChannel k] s1)
                        \<lparr>sendReactionRef := Some k, disposeRef := Some (k, ts)\<rparr>
             in if fault = AddTrackThrows \<and> ts \<noteq> [] then onStartCall_catch t s2
                else
                  let s3 = emit (map (AddTrack k) ts) s2
                  in goto t Finished
                       (s3\<lparr>calls := (calls s3)[k := (calls s3 ! k)\<lparr>installed := True\<rparr>]\<rparr>))"

definition onStartCall_stream :: "nat \<Rightarrow> nat \<Rightarrow> outcome \<Rightarrow> app \<Rightarrow> app" where
  "onStartCall_stream k t out s =
     (case out of
        Rejected \<Rightarrow> onStartCall_catch t s
      | Fulfilled v \<Rightarrow>
          (case v of
             MediaStream ts fault \<Rightarrow> onStartCall_setup k t ts fault s
           | _ \<Rightarrow> s))"


section \<open>The event loop\<close>

text \<open>A settled promise resumes the run that awaits it.\<close>

definition resume :: "participant_id \<Rightarrow> nat \<Rightarrow> outcome \<Rightarrow> app \<Rightarrow> app" where
  "resume localId t out s =
     (if t < length (tasks s) then
        (case tasks s ! t of
           AwaitSocketOpen k \<Rightarrow> onStartCall_opened k t out s
         | AwaitUserMedia k \<Rightarrow> onStartCall_stream k t out s
         | AwaitCreateOffer k \<Rightarrow> makeOffer_created k t out s
         | AwaitSetLocalOffer k \<Rightarrow> makeOffer_applied localId k t out s
         | AwaitSetRemote k data \<Rightarrow> onmessage_applied k t data out s
         | AwaitCreateAnswer k data \<Rightarrow> onmessage_answer_created k t data out s
         | AwaitSetLocalAnswer k data \<Rightarrow> onmessage_answer_applied localId k t data out s
         | AwaitAddIceCandidate k \<Rightarrow> onmessage_candidate_added k t out s
         | Finished \<Rightarrow> s)
      else s)"

text \<open>
  What can happen to the component: the three functions it hands to the screens, a promise
  settling, the events of the peer connection of call \<open>k\<close> and a message on its socket.
  An exception that leaves an event handler changes nothing.
\<close>

datatype event =
    StartCall bool
  | Hangup
  | Reaction string bool
  | Settle nat outcome
  | NegotiationNeeded nat
  | IceCandidate nat "ice_candidate_init option"
  | IceConnectionStateChange nat ice_connection_state
  | Track nat
  | DataChannelMessage nat string string
  | SocketMessage nat envelope signaling_state

definition handlers_installed :: "nat \<Rightarrow> app \<Rightarrow> bool" where
  "handlers_installed k s \<longleftrightarrow> k < length (calls s) \<and> installed (calls s ! k)"

fun handle :: "participant_id \<Rightarrow> event \<Rightarrow> app \<Rightarrow> app" where
  "handle localId (StartCall socketThrows) s = onStartCall socketThrows s"
| "handle localId Hangup s = onDisconnect s"
| "handle localId (Reaction r channelOpen) s =
     (case onReaction r channelOpen s of Inl e \<Rightarrow> s | Inr s' \<Rightarrow> s')"
| "handle localId (Settle t out) s = resume localId t out s"
| "handle localId (NegotiationNeeded k) s = onnegotiationneeded k s"
| "handle localId (IceCandidate k c) s = onicecandidate localId k c s"
| "handle localId (IceConnectionStateChange k st) s = oniceconnectionstatechange k st s"
| "handle localId (Track k) s = ontrack k s"
| "handle localId (DataChannelMessage k label d) s = ondatachannel_message label d s"
| "handle localId (SocketMessage k data sig) s = onmessage localId k data sig s"

fun event_call :: "event \<Rightarrow> nat option" where
  "event_call (NegotiationNeeded k) = Some k"
| "event_call (IceCandidate k c) = Some k"
| "event_call (IceConnectionStateChange k st) = Some k"
| "event_call (Track k) = Some k"
| "event_call (DataChannelMessage k label d) = Some k"
| "event_call (SocketMessage k data sig) = Some k"
| "event_call _ = None"

text \<open>An event of a call whose handlers are not installed has no handler to run.\<close>

definition step :: "participant_id \<Rightarrow> app \<Rightarrow> event \<Rightarrow> app" where
  "step localId s ev =
     (case event_call ev of
        None \<Rightarrow> handle localId ev s
      | Some k \<Rightarrow> if handlers_installed k s then handle localId ev s else s)"

definition run :: "participant_id \<Rightarrow> app \<Rightarrow> event list \<Rightarrow> app" where
  "run localId s evs = foldl (step localId) s evs"


section \<open>Auxiliary notions for the properties\<close>

text \<open>The offers among the envelopes a log sends over the socket, in order.\<close>

fun offers_sent :: "action list \<Rightarrow> session_description list" where
  "offers_sent [] = []"
| "offers_sent (SocketSend k e # as) =
     (case description e of
        None \<Rightarrow> offers_sent as
      | Some d \<Rightarrow> if sdp_type d = ''offer'' then d # offers_sent as else offers_sent as)"
| "offers_sent (a # as) = offers_sent as"

definition offer_of :: "string \<Rightarrow> session_description" where
  "offer_of body = \<lparr>sdp_type = ''offer'', sdp = body\<rparr>"

text \<open>
  Two states used as examples: a first call whose set-up has finished, with a stream of two
  tracks; and the same call after its own offer has been made and sent.
\<close>

definition call_set_up :: "participant_id \<Rightarrow> app" where
  "call_set_up localId =
     run localId app_init
       [StartCall False, Settle 0 (Fulfilled NoValue),
        Settle 0 (Fulfilled (MediaStream [0, 1] NoFault))]"

definition after_own_offer :: "participant_id \<Rightarrow> session_description \<Rightarrow> app" where
  "after_own_offer localId offer =
     run localId (call_set_up localId)
       [NegotiationNeeded 0, Settle 1 (Fulfilled (Description offer)),
        Settle 1 (Fulfilled (Description offer))]"

text \<open>The two refs are set together and cleared together.\<close>

definition refs_inv :: "app \<Rightarrow> bool" where
  "refs_inv s \<longleftrightarrow> (disposeRef s = None \<longrightarrow> sendReactionRef s = None)"

text \<open>Nothing has been started: no call, no suspended run, both refs empty.\<close>

definition no_call_started :: "app \<Rightarrow> bool" where
  "no_call_started s \<longleftrightarrow>
     calls s = [] \<and> tasks s = [] \<and> sendReactionRef s = None \<and> disposeRef s = None"

fun is_StartCall :: "event \<Rightarrow> bool" where
  "is_StartCall (StartCall socketThrows) = True"
| "is_StartCall _ = False"


section \<open>Properties of the relay\<close>

lemma fan_out_eq: "fan_out sender txt cs = map (\<lambda>c. (c, txt)) (filter (\<lambda>c. c \<noteq> sender) cs)"
  by (induction cs) auto

lemma receivers_fan_out: "fst ` set (fan_out sender txt cs) = set cs - {sender}"
  by (force simp: fan_out_eq)

lemma relay_step_absent:
  assumes "c \<notin> set (clients r)" and "ev \<noteq> Connection c"
  shows "\<exists>new. sent (relay_step f r ev) = sent r @ new \<and> c \<notin> fst ` set new
           \<and> c \<notin> set (clients (relay_step f r ev))"
proof (cases ev)
  case (Connection x)
  with assms show ?thesis by (simp add: on_connection_def set_add_def)
next
  case (Close x)
  with assms show ?thesis by (simp add: on_close_def set_delete_def)
next
  case (Message x b)
  with assms show ?thesis by (simp add: on_message_def receivers_fan_out)
qed

lemma relay_run_absent:
  "c \<notin> set (clients r) \<Longrightarrow> Connection c \<notin> set evs \<Longrightarrow>
     \<exists>new. sent (relay_run f r evs) = sent r @ new \<and> c \<notin> fst ` set new
        \<and> c \<notin> set (clients (relay_run f r evs))"
proof (induction evs arbitrary: r)
  case Nil
  then show ?case by (simp add: relay_run_def)
next
  case (Cons ev evs)
  let ?r1 = "relay_step f r ev"
  from Cons.prems have ne: "ev \<noteq> Connection c" and rest: "Connection c \<notin> set evs" by auto
  from relay_step_absent [OF Cons.prems(1) ne]
  obtain n1 where s1: "sent ?r1 = sent r @ n1" and d1: "c \<notin> fst ` set n1"
    and a1: "c \<notin> set (clients ?r1)" by blast
  from Cons.IH [OF a1 rest]
  obtain n2 where s2: "sent (relay_run f ?r1 evs) = sent ?r1 @ n2" and d2: "c \<notin> fst ` set n2"
    and a2: "c \<notin> set (clients (relay_run f ?r1 evs))" by blast
  have run: "relay_run f r (ev # evs) = relay_run f ?r1 evs" by (simp add: relay_run_def)
  have "sent (relay_run f r (ev # evs)) = sent r @ (n1 @ n2)" using run s1 s2 by simp
  moreover have "c \<notin> fst ` set (n1 @ n2)" using d1 d2 by auto
  ultimately show ?case using a2 run by metis
qed

lemma closed_absent: "c \<notin> set (clients (on_close c r))"
  by (simp add: on_close_def set_delete_def)

text \<open>
  Claim C7. A message received from a client is sent, decoded, to every client in the set
  other than the sending socket, once each and in the set's order, and never to the sender.
  Closing removes the client from the set, and whatever happens afterwards, short of that
  socket connecting again, nothing is sent to it.
\<close>

theorem relay_forwards_to_others:
  "delivered_since r (on_message toString sender message r)
     = map (\<lambda>c. (c, toString message)) (filter (\<lambda>c. c \<noteq> sender) (clients r))
   \<and> fst ` set (delivered_since r (on_message toString sender message r))
     = set (clients r) - {sender}
   \<and> c \<notin> set (clients (on_close c r))
   \<and> (Connection c \<notin> set evs \<longrightarrow>
        c \<notin> fst ` set (delivered_since (on_close c r) (relay_run toString (on_close c r) evs)))"
proof -
  have d: "delivered_since r (on_message toString sender message r)
             = fan_out sender (toString message) (clients r)"
    by (simp add: delivered_since_def on_message_def)
  have p1: "delivered_since r (on_message toString sender message r)
     = map (\<lambda>c. (c, toString message)) (filter (\<lambda>c. c \<noteq> sender) (clients r))"
    using d by (simp add: fan_out_eq)
  have p2: "fst ` set (delivered_since r (on_message toString sender message r))
     = set (clients r) - {sender}"
    using d by (simp add: receivers_fan_out)
  have p4: "c \<notin> fst ` set (delivered_since (on_close c r) (relay_run toString (on_close c r) evs))"
    if "Connection c \<notin> set evs"
  proof -
    from relay_run_absent [OF closed_absent that]
    obtain new where "sent (relay_run toString (on_close c r) evs) = sent (on_close c r) @ new"
      and "c \<notin> fst ` set new" by blast
    then show ?thesis by (simp add: delivered_since_def)
  qed
  from p1 p2 p4 closed_absent show ?thesis by blast
qed

theorem relay_forwards_to_others_witness:
  "Connection 2 \<notin> set [Message 1 ''m1'', Close 3, Connection 4, Message 4 ''m2'']
   \<and> clients (relay_run id relay_init [Connection 1, Connection 2, Connection 3, Connection 2])
       = [1, 2, 3]
   \<and> delivered_since (on_close 2 (relay_run id relay_init [Connection 1, Connection 2, Connection 3]))
       (relay_run id (on_close 2 (relay_run id relay_init [Connection 1, Connection 2, Connection 3]))
          [Message 1 ''m1'', Close 3, Connection 4, Message 4 ''m2''])
     = [(3, ''m1''), (1, ''m2'')]
   \<and> delivered_since (relay_run id relay_init [Connection 1, Connection 2, Connection 3])
        (on_message id 2 ''m0'' (relay_run id relay_init [Connection 1, Connection 2, Connection 3]))
     = [(1, ''m0''), (3, ''m0'')]"
  using relay_forwards_to_others [of
      "relay_run id relay_init [Connection 1, Connection 2, Connection 3]" id 2 "''m0''" 2
      "[Message 1 ''m1'', Close 3, Connection 4, Message 4 ''m2'']"]
  by (simp add: delivered_since_def relay_run_def relay_init_def on_close_def on_message_def
      on_connection_def set_add_def set_delete_def)


section \<open>Properties of the politeness computation\<close>

lemma localeCompare_range: "localeCompare a b = - 1 \<or> localeCompare a b = 0 \<or> localeCompare a b = 1"
  by (induction a b rule: localeCompare.induct) auto

lemma localeCompare_zero: "localeCompare a b = 0 \<longleftrightarrow> a = b"
  by (induction a b rule: localeCompare.induct) auto

lemma localeCompare_swap: "localeCompare b a = - localeCompare a b"
  by (induction a b rule: localeCompare.induct) auto

text \<open>
  Claim C2. For two distinct participant ids, the politeness computed by the two peers, each
  comparing the id of the other (the sender of the message it handles) with its own, is true
  on exactly one of them.
\<close>

theorem polite_exactly_one:
  "idA \<noteq> idB \<Longrightarrow>
     (polite idB idA \<and> \<not> polite idA idB) \<or> (\<not> polite idB idA \<and> polite idA idB)"
proof -
  assume "idA \<noteq> idB"
  then have nz: "localeCompare idA idB \<noteq> 0"
    by (simp add: localeCompare_zero)
  have sw: "localeCompare idB idA = - localeCompare idA idB"
    by (rule localeCompare_swap)
  from localeCompare_range [of idA idB] nz sw show ?thesis
    unfolding polite_def by auto
qed

theorem polite_exactly_one_witness:
  "''V1StGXR8_Z5jdHi6B-myT'' \<noteq> ''xk3Lp0Qz9sWn2aYtUe7Rb''
   \<and> polite ''xk3Lp0Qz9sWn2aYtUe7Rb'' ''V1StGXR8_Z5jdHi6B-myT''
   \<and> \<not> polite ''V1StGXR8_Z5jdHi6B-myT'' ''xk3Lp0Qz9sWn2aYtUe7Rb''"
  using polite_exactly_one [of "''V1StGXR8_Z5jdHi6B-myT''" "''xk3Lp0Qz9sWn2aYtUe7Rb''"]
  by (simp add: polite_def)


section \<open>Properties of the client\<close>

lemmas engine_defs =
  emit_def goto_def set_makingOffer_def set_ignoreOffer_def makeOffer_def makeOffer_catch_def
  makeOffer_created_def makeOffer_applied_def onnegotiationneeded_def candidate_part_def
  onmessage_def onmessage_applied_def onmessage_answer_created_def onmessage_answer_applied_def
  onmessage_candidate_added_def resume_def

lemmas controller_defs =
  dispose_def onDisconnect_def onStartCall_catch_def onStartCall_def onStartCall_opened_def
  onStartCall_setup_def onStartCall_stream_def

lemmas loop_defs = step_def run_def handlers_installed_def

subsection \<open>The example states, evaluated\<close>

lemma call_set_up_eq:
  "call_set_up localId =
     \<lparr>status = Calling, reactions = [], sendReactionRef = Some 0, disposeRef = Some (0, [0, 1]),
      calls = [\<lparr>makingOffer = False, ignoreOffer = False, installed = True\<rparr>],
      tasks = [Finished],
      log = [NewWebSocket 0, GetUserMedia 0, NewPeerConnection 0, CreateDataChannel 0,
             AddTrack 0 0, AddTrack 0 1]\<rparr>"
  by (simp add: call_set_up_def engine_defs controller_defs loop_defs app_init_def)

lemma after_own_offer_eq:
  "after_own_offer localId offer =
     \<lparr>status = Calling, reactions = [], sendReactionRef = Some 0, disposeRef = Some (0, [0, 1]),
      calls = [\<lparr>makingOffer = False, ignoreOffer = False, installed = True\<rparr>],
      tasks = [Finished, Finished],
      log = [NewWebSocket 0, GetUserMedia 0, NewPeerConnection 0, CreateDataChannel 0,
             AddTrack 0 0, AddTrack 0 1, CreateOffer 0, SetLocalDescription 0 offer,
             SocketSend 0 \<lparr>env_id = localId, description = Some offer, candidate = None\<rparr>]\<rparr>"
  by (simp add: after_own_offer_def call_set_up_eq engine_defs loop_defs)

subsection \<open>Negotiation needed\<close>

text \<open>
  Claim C1, at the input where it fails. The first call is set up and the negotiation-needed
  event fires. \<^verbatim>\<open>makingOffer\<close> is now true and \<^verbatim>\<open>createOffer\<close> is pending. The event fires
  again: the handler calls \<^verbatim>\<open>makeOffer\<close> without looking at \<^verbatim>\<open>makingOffer\<close>, and a second
  \<^verbatim>\<open>createOffer\<close> is pending. All four promises fulfil, and two offer envelopes have been
  sent over the socket, one for each firing.
\<close>

theorem second_firing_starts_second_offer:
  "makingOffer (calls (run ''aaa'' (call_set_up ''aaa'') [NegotiationNeeded 0]) ! 0)
   \<and> log (run ''aaa'' (call_set_up ''aaa'') [NegotiationNeeded 0, NegotiationNeeded 0])
       = log (call_set_up ''aaa'') @ [CreateOffer 0, CreateOffer 0]
   \<and> offers_sent (log (run ''aaa'' (call_set_up ''aaa'')
       [NegotiationNeeded 0, NegotiationNeeded 0,
        Settle 1 (Fulfilled (Description (offer_of ''first''))),
        Settle 2 (Fulfilled (Description (offer_of ''second''))),
        Settle 1 (Fulfilled (Description (offer_of ''first''))),
        Settle 2 (Fulfilled (Description (offer_of ''second'')))]))
     = [offer_of ''first'', offer_of ''second'']"
  by (simp add: call_set_up_eq offer_of_def engine_defs loop_defs)

subsection \<open>Inbound descriptions\<close>

text \<open>
  Claim C3 as the spec states it fails: the peer with id \<open>bbb\<close>, handling a message whose
  sender is \<open>aaa\<close>, computes \<open>polite = false\<close>. With both peers having sent their own offer,
  it is \<open>bbb\<close> that sets \<^verbatim>\<open>ignoreOffer\<close> on the other's offer, and \<open>aaa\<close> that does not.
\<close>

theorem bbb_is_not_polite:
  "\<not> polite ''aaa'' ''bbb''
   \<and> ignoreOffer (calls (step ''bbb'' (after_own_offer ''bbb'' (offer_of ''from-b''))
        (SocketMessage 0 \<lparr>env_id = ''aaa'', description = Some (offer_of ''from-a''),
                          candidate = None\<rparr> HaveLocalOffer)) ! 0)
   \<and> \<not> ignoreOffer (calls (step ''aaa'' (after_own_offer ''aaa'' (offer_of ''from-a''))
        (SocketMessage 0 \<lparr>env_id = ''bbb'', description = Some (offer_of ''from-b''),
                          candidate = None\<rparr> HaveLocalOffer)) ! 0)"
  by (simp add: after_own_offer_eq offer_of_def polite_def engine_defs loop_defs)

text \<open>
  Claim C3, amended. With ids \<open>aaa\<close> and \<open>bbb\<close> the polite peer is \<open>aaa\<close>: handling a
  message whose sender is \<open>bbb\<close> it computes \<open>polite = true\<close>, and \<open>bbb\<close> computes
  \<open>polite = false\<close>. When each receives the other's offer while in collision, \<open>bbb\<close> sets
  \<^verbatim>\<open>ignoreOffer\<close> and applies nothing of the offer of \<open>aaa\<close> (the only call it may make is the
  \<^verbatim>\<open>createOffer\<close> of an offer of its own); \<open>aaa\<close> rolls back, applies the offer of \<open>bbb\<close>
  and, the promises fulfilling, creates an answer, sets it and sends it.
\<close>

theorem aaa_polite_bbb_impolite:
  assumes "handlers_installed kA sA" and "makingOffer (calls sA ! kA) \<or> sigA \<noteq> Stable"
    and "handlers_installed kB sB" and "makingOffer (calls sB ! kB) \<or> sigB \<noteq> Stable"
    and "sdp_type offerA = ''offer''" and "sdp_type offerB = ''offer''"
  shows "polite ''bbb'' ''aaa'' \<and> \<not> polite ''aaa'' ''bbb''
     \<and> ignoreOffer (calls (step ''bbb'' sB
          (SocketMessage kB \<lparr>env_id = ''aaa'', description = Some offerA, candidate = None\<rparr>
             sigB)) ! kB)
     \<and> log (step ''bbb'' sB
          (SocketMessage kB \<lparr>env_id = ''aaa'', description = Some offerA, candidate = None\<rparr>
             sigB))
         = log sB @ (if makingOffer (calls sB ! kB) then [] else [CreateOffer kB])
     \<and> \<not> ignoreOffer (calls (step ''aaa'' sA
          (SocketMessage kA \<lparr>env_id = ''bbb'', description = Some offerB, candidate = None\<rparr>
             sigA)) ! kA)
     \<and> log (run ''aaa'' sA
          [SocketMessage kA \<lparr>env_id = ''bbb'', description = Some offerB, candidate = None\<rparr>
             sigA,
           Settle (length (tasks sA)) (Fulfilled v),
           Settle (length (tasks sA)) (Fulfilled (Description answer)),
           Settle (length (tasks sA)) (Fulfilled (Description localDescription))])
         = log sA @ [SetLocalDescription kA rollback, SetRemoteDescription kA offerB,
                     CreateAnswer kA, SetLocalDescription kA answer,
                     SocketSend kA \<lparr>env_id = ''aaa'', description = Some localDescription,
                                    candidate = None\<rparr>]"
proof -
  have p: "polite ''bbb'' ''aaa''" "\<not> polite ''aaa'' ''bbb''"
    by (simp_all add: polite_def)
  show ?thesis
    using assms p by (auto simp: engine_defs loop_defs Let_def)
qed

theorem aaa_polite_bbb_impolite_witness:
  "handlers_installed 0 (after_own_offer ''aaa'' (offer_of ''from-a''))
   \<and> handlers_installed 0 (after_own_offer ''bbb'' (offer_of ''from-b''))
   \<and> HaveLocalOffer \<noteq> Stable
   \<and> sdp_type (offer_of ''from-a'') = ''offer'' \<and> sdp_type (offer_of ''from-b'') = ''offer''
   \<and> log (step ''bbb'' (after_own_offer ''bbb'' (offer_of ''from-b''))
          (SocketMessage 0 \<lparr>env_id = ''aaa'', description = Some (offer_of ''from-a''),
                            candidate = None\<rparr> HaveLocalOffer))
       = log (after_own_offer ''bbb'' (offer_of ''from-b'')) @ [CreateOffer 0]
   \<and> log (run ''aaa'' (after_own_offer ''aaa'' (offer_of ''from-a''))
          [SocketMessage 0 \<lparr>env_id = ''bbb'', description = Some (offer_of ''from-b''),
                            candidate = None\<rparr> HaveLocalOffer,
           Settle 2 (Fulfilled NoValue),
           Settle 2 (Fulfilled (Description \<lparr>sdp_type = ''answer'', sdp = ''from-a''\<rparr>)),
           Settle 2 (Fulfilled (Description \<lparr>sdp_type = ''answer'', sdp = ''from-a''\<rparr>))])
       = log (after_own_offer ''aaa'' (offer_of ''from-a''))
           @ [SetLocalDescription 0 rollback, SetRemoteDescription 0 (offer_of ''from-b''),
              CreateAnswer 0, SetLocalDescription 0 \<lparr>sdp_type = ''answer'', sdp = ''from-a''\<rparr>,
              SocketSend 0 \<lparr>env_id = ''aaa'',
                            description = Some \<lparr>sdp_type = ''answer'', sdp = ''from-a''\<rparr>,
                            candidate = None\<rparr>]"
  using aaa_polite_bbb_impolite [of 0 "after_own_offer ''aaa'' (offer_of ''from-a'')"
      HaveLocalOffer 0 "after_own_offer ''bbb'' (offer_of ''from-b'')" HaveLocalOffer
      "offer_of ''from-a''" "offer_of ''from-b''" NoValue
      "\<lparr>sdp_type = ''answer'', sdp = ''from-a''\<rparr>" "\<lparr>sdp_type = ''answer'', sdp = ''from-a''\<rparr>"]
  by (simp add: after_own_offer_eq offer_of_def polite_def engine_defs loop_defs)

text \<open>
  Claim C4. An offer arrives at a peer that is impolite towards its sender and in collision
  (\<^verbatim>\<open>makingOffer\<close> is true or the signaling state is not stable). The handler sets
  \<^verbatim>\<open>ignoreOffer\<close> and returns without any call that applies the envelope: the log grows by
  nothing when \<^verbatim>\<open>makingOffer\<close> was true, and otherwise by the \<^verbatim>\<open>createOffer\<close> of
  \<^verbatim>\<open>makeOffer\<close>, which is started in this same step (\<^verbatim>\<open>makingOffer\<close> is set, its run is
  suspended at \<^verbatim>\<open>createOffer\<close>).
\<close>

theorem impolite_collision_ignores:
  assumes "handlers_installed k s"
    and "description data = Some d" and "sdp_type d = ''offer''"
    and "\<not> polite (env_id data) localId"
    and "makingOffer (calls s ! k) \<or> sig \<noteq> Stable"
  shows "ignoreOffer (calls (step localId s (SocketMessage k data sig)) ! k)
     \<and> makingOffer (calls (step localId s (SocketMessage k data sig)) ! k)
     \<and> log (step localId s (SocketMessage k data sig))
         = log s @ (if makingOffer (calls s ! k) then [] else [CreateOffer k])
     \<and> tasks (step localId s (SocketMessage k data sig))
         = tasks s @ Finished # (if makingOffer (calls s ! k) then [] else [AwaitCreateOffer k])"
  using assms by (auto simp: engine_defs loop_defs Let_def)

theorem impolite_collision_ignores_witness:
  "handlers_installed 0 (after_own_offer ''zed'' (offer_of ''z''))
   \<and> \<not> polite ''amy'' ''zed'' \<and> HaveLocalOffer \<noteq> Stable
   \<and> log (step ''zed'' (after_own_offer ''zed'' (offer_of ''z''))
        (SocketMessage 0 \<lparr>env_id = ''amy'', description = Some (offer_of ''a''),
                          candidate = None\<rparr> HaveLocalOffer))
       = log (after_own_offer ''zed'' (offer_of ''z'')) @ [CreateOffer 0]
   \<and> tasks (step ''zed'' (after_own_offer ''zed'' (offer_of ''z''))
        (SocketMessage 0 \<lparr>env_id = ''amy'', description = Some (offer_of ''a''),
                          candidate = None\<rparr> HaveLocalOffer))
       = [Finished, Finished, Finished, AwaitCreateOffer 0]"
  using impolite_collision_ignores [of 0 "after_own_offer ''zed'' (offer_of ''z'')"
      "\<lparr>env_id = ''amy'', description = Some (offer_of ''a''), candidate = None\<rparr>"
      "offer_of ''a''" "''zed''" HaveLocalOffer]
  by (simp add: after_own_offer_eq offer_of_def handlers_installed_def polite_def)

text \<open>
  Claim C5. An offer arrives at a peer that is polite towards its sender and in collision.
  In the handler's first step both \<^verbatim>\<open>setLocalDescription({type: 'rollback'})\<close> and
  \<^verbatim>\<open>setRemoteDescription(data.description)\<close> are called, \<^verbatim>\<open>ignoreOffer\<close> is false and the
  run waits for both. If that wait rejects, nothing more is done. If it fulfils, the run
  calls \<^verbatim>\<open>createAnswer\<close>, then \<^verbatim>\<open>setLocalDescription\<close> with the answer, then sends
  \<^verbatim>\<open>{ id, description: peerConnection.localDescription }\<close> with the local id (and goes on
  to the candidate part of the message, if there is one).
\<close>

theorem polite_collision_rolls_back_and_answers:
  assumes "handlers_installed k s"
    and "description data = Some d" and "sdp_type d = ''offer''"
    and "polite (env_id data) localId"
    and "makingOffer (calls s ! k) \<or> sig \<noteq> Stable"
  shows "log (step localId s (SocketMessage k data sig))
           = log s @ [SetLocalDescription k rollback, SetRemoteDescription k d]
     \<and> tasks (step localId s (SocketMessage k data sig)) = tasks s @ [AwaitSetRemote k data]
     \<and> \<not> ignoreOffer (calls (step localId s (SocketMessage k data sig)) ! k)
     \<and> log (run localId s [SocketMessage k data sig, Settle (length (tasks s)) Rejected])
           = log s @ [SetLocalDescription k rollback, SetRemoteDescription k d]
     \<and> (\<exists>rest. log (run localId s
            [SocketMessage k data sig,
             Settle (length (tasks s)) (Fulfilled v),
             Settle (length (tasks s)) (Fulfilled (Description answer)),
             Settle (length (tasks s)) (Fulfilled (Description localDescription))])
           = log s @ [SetLocalDescription k rollback, SetRemoteDescription k d,
                      CreateAnswer k, SetLocalDescription k answer,
                      SocketSend k \<lparr>env_id = localId, description = Some localDescription,
                                    candidate = None\<rparr>] @ rest)"
  using assms by (simp add: engine_defs loop_defs Let_def split: option.split)

theorem polite_collision_rolls_back_and_answers_witness:
  "handlers_installed 0 (after_own_offer ''amy'' (offer_of ''a''))
   \<and> polite ''zed'' ''amy'' \<and> HaveLocalOffer \<noteq> Stable
   \<and> log (step ''amy'' (after_own_offer ''amy'' (offer_of ''a''))
        (SocketMessage 0 \<lparr>env_id = ''zed'', description = Some (offer_of ''z''),
                          candidate = None\<rparr> HaveLocalOffer))
       = log (after_own_offer ''amy'' (offer_of ''a''))
           @ [SetLocalDescription 0 rollback, SetRemoteDescription 0 (offer_of ''z'')]
   \<and> tasks (step ''amy'' (after_own_offer ''amy'' (offer_of ''a''))
        (SocketMessage 0 \<lparr>env_id = ''zed'', description = Some (offer_of ''z''),
                          candidate = None\<rparr> HaveLocalOffer))
       = [Finished, Finished,
          AwaitSetRemote 0 \<lparr>env_id = ''zed'', description = Some (offer_of ''z''),
                            candidate = None\<rparr>]"
  using polite_collision_rolls_back_and_answers [of 0 "after_own_offer ''amy'' (offer_of ''a'')"
      "\<lparr>env_id = ''zed'', description = Some (offer_of ''z''), candidate = None\<rparr>"
      "offer_of ''z''" "''amy''" HaveLocalOffer]
  by (simp add: after_own_offer_eq offer_of_def handlers_installed_def polite_def)

subsection \<open>Inbound candidates\<close>

text \<open>
  Claim C6. A candidate fails to apply either because \<^verbatim>\<open>addIceCandidate\<close> rejects or
  because the constructor of the candidate throws. Both ways the \<^verbatim>\<open>catch\<close> logs the error
  exactly when \<^verbatim>\<open>ignoreOffer\<close> is false at that moment, the run of the handler ends, and
  nothing else changes: status, refs, calls and the other runs are as before, and no socket,
  peer connection or track is closed.
\<close>

theorem candidate_failure_is_tolerated:
  "(t < length (tasks s) \<and> tasks s ! t = AwaitAddIceCandidate k \<longrightarrow>
      step localId s (Settle t Rejected)
        = s\<lparr>tasks := (tasks s)[t := Finished],
            log := log s @ (if ignoreOffer (calls s ! k) then [] else [ConsoleError])\<rparr>)
   \<and> (handlers_installed k s \<and> description data = None \<and> candidate data = Some c
        \<and> new_RTCIceCandidate c = None \<longrightarrow>
      step localId s (SocketMessage k data sig)
        = s\<lparr>tasks := tasks s @ [Finished],
            log := log s @ (if ignoreOffer (calls s ! k) then [] else [ConsoleError])\<rparr>)"
  by (simp add: engine_defs loop_defs)

theorem candidate_failure_is_tolerated_witness:
  "tasks (step ''amy'' (call_set_up ''amy'')
      (SocketMessage 0 \<lparr>env_id = ''zed'', description = None,
         candidate = Some \<lparr>cand = ''candidate:1'', sdpMid = Some ''0'', sdpMLineIndex = None\<rparr>\<rparr>
         Stable)) ! 1 = AwaitAddIceCandidate 0
   \<and> log (run ''amy'' (call_set_up ''amy'')
      [SocketMessage 0 \<lparr>env_id = ''zed'', description = None,
         candidate = Some \<lparr>cand = ''candidate:1'', sdpMid = Some ''0'', sdpMLineIndex = None\<rparr>\<rparr>
         Stable,
       Settle 1 Rejected])
      = log (call_set_up ''amy'')
          @ [AddIceCandidate 0 \<lparr>cand = ''candidate:1'', sdpMid = Some ''0'', sdpMLineIndex = None\<rparr>,
             ConsoleError]
   \<and> new_RTCIceCandidate \<lparr>cand = ''candidate:2'', sdpMid = None, sdpMLineIndex = None\<rparr> = None
   \<and> step ''amy'' (call_set_up ''amy'')
      (SocketMessage 0 \<lparr>env_id = ''zed'', description = None,
         candidate = Some \<lparr>cand = ''candidate:2'', sdpMid = None, sdpMLineIndex = None\<rparr>\<rparr>
         Stable)
      = (call_set_up ''amy'')
          \<lparr>tasks := [Finished, Finished], log := log (call_set_up ''amy'') @ [ConsoleError]\<rparr>"
  using candidate_failure_is_tolerated [of 1
      "step ''amy'' (call_set_up ''amy'')
        (SocketMessage 0 \<lparr>env_id = ''zed'', description = None,
          candidate = Some \<lparr>cand = ''candidate:1'', sdpMid = Some ''0'', sdpMLineIndex = None\<rparr>\<rparr>
          Stable)" 0 "''amy''"]
    candidate_failure_is_tolerated [of _ "call_set_up ''amy''" 0 _
      "\<lparr>env_id = ''zed'', description = None,
        candidate = Some \<lparr>cand = ''candidate:2'', sdpMid = None, sdpMLineIndex = None\<rparr>\<rparr>"
      "\<lparr>cand = ''candidate:2'', sdpMid = None, sdpMLineIndex = None\<rparr>" Stable]
  by (simp add: call_set_up_eq engine_defs loop_defs new_RTCIceCandidate_def)

subsection \<open>Teardown\<close>

text \<open>
  Claim C8. \<^verbatim>\<open>onDisconnect\<close> plays the sound, sets the status to idle and, when
  \<^verbatim>\<open>disposeRef\<close> holds a closure, runs it: one close of the socket, one close of the peer
  connection, one stop for each track. Afterwards \<^verbatim>\<open>disposeRef\<close> is empty, so a second
  \<^verbatim>\<open>onDisconnect\<close> only plays the sound again, and so does an \<^verbatim>\<open>onDisconnect\<close> when no call
  was ever set up. The console is never written to.
\<close>

theorem teardown_is_idempotent:
  "log (onDisconnect s)
     = log s @ PlayAudio ''/alert-stop.mp3'' #
         (case disposeRef s of
            None \<Rightarrow> []
          | Some (k, ts) \<Rightarrow> [SocketClose k, PeerConnectionClose k] @ map (TrackStop k) ts)
   \<and> disposeRef (onDisconnect s) = None
   \<and> status (onDisconnect s) = Idle
   \<and> onDisconnect (onDisconnect s)
       = (onDisconnect s)\<lparr>log := log (onDisconnect s) @ [PlayAudio ''/alert-stop.mp3'']\<rparr>
   \<and> log (onDisconnect app_init) = [PlayAudio ''/alert-stop.mp3'']"
  by (simp add: onDisconnect_def dispose_def emit_def app_init_def Let_def
      split: option.split prod.split)

subsection \<open>Connectivity changes and errors while starting a call\<close>








subsection \<open>Reactions\<close>

lemma refs_inv_onDisconnect: "refs_inv s \<Longrightarrow> refs_inv (onDisconnect s)"
  by (auto simp: refs_inv_def onDisconnect_def dispose_def emit_def Let_def
      split: option.split prod.split)

lemma refs_after_onDisconnect: "refs_inv s \<Longrightarrow> sendReactionRef (onDisconnect s) = None"
  by (auto simp: refs_inv_def onDisconnect_def dispose_def emit_def Let_def
      split: option.split prod.split)

lemma refs_inv_resume: "refs_inv s \<Longrightarrow> refs_inv (resume localId t out s)"
  by (auto simp: refs_inv_def engine_defs controller_defs Let_def
      split: cont.splits outcome.splits payload.splits option.splits if_splits)

lemma refs_inv_handle: "refs_inv s \<Longrightarrow> refs_inv (handle localId ev s)"
proof (cases ev)
  case (Settle t out)
  assume "refs_inv s"
  with Settle show ?thesis by (simp add: refs_inv_resume)
next
  case Hangup
  assume "refs_inv s"
  with Hangup show ?thesis by (simp add: refs_inv_onDisconnect)
qed (auto simp: refs_inv_def engine_defs controller_defs onReaction_def
        onicecandidate_def oniceconnectionstatechange_def ontrack_def ondatachannel_message_def
        Let_def split: option.splits if_splits)

lemma refs_inv_step: "refs_inv s \<Longrightarrow> refs_inv (step localId s ev)"
  by (simp add: step_def refs_inv_handle split: option.split)

lemma refs_inv_run: "refs_inv s \<Longrightarrow> refs_inv (run localId s evs)"
  by (induction evs arbitrary: s) (simp_all add: run_def refs_inv_step)

lemma no_call_started_step:
  "no_call_started s \<Longrightarrow> \<not> is_StartCall ev \<Longrightarrow> no_call_started (step localId s ev)"
  by (cases ev)
     (auto simp: no_call_started_def step_def handlers_installed_def resume_def onReaction_def
        onDisconnect_def emit_def split: option.splits)

lemma no_call_started_run:
  "no_call_started s \<Longrightarrow> \<forall>ev \<in> set evs. \<not> is_StartCall ev \<Longrightarrow>
     no_call_started (run localId s evs)"
  by (induction evs arbitrary: s) (simp_all add: run_def no_call_started_step)

text \<open>
  Claim C10. \<^verbatim>\<open>onReaction\<close> returns without an exception and without changing anything
  (in particular without a call on a data channel) in the initial state, in every state
  reached from it by events among which \<^verbatim>\<open>onStartCall\<close> was never invoked, and right after an
  \<^verbatim>\<open>onDisconnect\<close> in any state the component can reach at all: there \<^verbatim>\<open>sendReactionRef\<close>
  is empty, whether or not the data channel would be open.
\<close>

theorem reaction_without_call_does_nothing:
  "onReaction reaction channelOpen app_init = Inr app_init
   \<and> ((\<forall>ev \<in> set evs. \<not> is_StartCall ev) \<longrightarrow>
        onReaction reaction channelOpen (run localId app_init evs)
          = Inr (run localId app_init evs))
   \<and> onReaction reaction channelOpen (onDisconnect (run localId app_init evs'))
       = Inr (onDisconnect (run localId app_init evs'))"
proof -
  have init: "refs_inv app_init" "no_call_started app_init"
    by (simp_all add: refs_inv_def no_call_started_def app_init_def)
  have a: "onReaction reaction channelOpen app_init = Inr app_init"
    by (simp add: onReaction_def app_init_def)
  have b: "onReaction reaction channelOpen (run localId app_init evs)
             = Inr (run localId app_init evs)"
    if "\<forall>ev \<in> set evs. \<not> is_StartCall ev"
    using no_call_started_run [OF init(2) that, of localId]
    by (simp add: onReaction_def no_call_started_def)
  have c: "onReaction reaction channelOpen (onDisconnect (run localId app_init evs'))
       = Inr (onDisconnect (run localId app_init evs'))"
    using refs_after_onDisconnect [OF refs_inv_run [OF init(1)], of localId evs']
    by (simp add: onReaction_def)
  from a b c show ?thesis by blast
qed

theorem reaction_without_call_does_nothing_witness:
  "\<not> is_StartCall Hangup \<and> \<not> is_StartCall (Reaction ''wave'' True)
   \<and> \<not> is_StartCall (NegotiationNeeded 0)
   \<and> onReaction ''clap'' False (run ''amy'' app_init [Hangup, Reaction ''wave'' True, NegotiationNeeded 0])
       = Inr \<lparr>status = Idle, reactions = [], sendReactionRef = None, disposeRef = None,
              calls = [], tasks = [], log = [PlayAudio ''/alert-stop.mp3'']\<rparr>
   \<and> onReaction ''clap'' True (call_set_up ''amy'')
       = Inr ((call_set_up ''amy'')\<lparr>log := log (call_set_up ''amy'') @ [DataChannelSend 0 ''clap'']\<rparr>)
   \<and> onReaction ''clap'' False (call_set_up ''amy'') = Inl InvalidStateError
   \<and> onReaction ''clap'' False (onDisconnect (call_set_up ''amy''))
       = Inr (onDisconnect (call_set_up ''amy''))"
  using reaction_without_call_does_nothing [of "''clap''" False
      "[Hangup, Reaction ''wave'' True, NegotiationNeeded 0]" "''amy''"
      "[StartCall False, Settle 0 (Fulfilled NoValue),
        Settle 0 (Fulfilled (MediaStream [0, 1] NoFault))]"]
  by (simp add: call_set_up_def [symmetric] call_set_up_eq onReaction_def emit_def loop_defs
      onDisconnect_def dispose_def app_init_def)

end
